theory Spec2Isabelle
  imports
    Complex_Main
    "HOL-Library.Sublist"
    "HOL-Library.Char_ord"
    "HOL-Library.List_Lexorder"
begin

section \<open>Data model\<close>

text \<open>
  The dashboard works on a pandas DataFrame of order rows.  The columns that
  \<^verbatim>\<open>main.py\<close> and \<^verbatim>\<open>main_bakcup.py\<close> read are \<^verbatim>\<open>orderDate\<close>,
  \<^verbatim>\<open>categoryName\<close>, \<^verbatim>\<open>storeName\<close>, \<^verbatim>\<open>brandName\<close>, \<^verbatim>\<open>sellingPrice\<close>,
  \<^verbatim>\<open>costPrice\<close> and \<^verbatim>\<open>quantity\<close>.

  A timestamp is either timezone-naive (a wall-clock reading) or timezone-aware (a
  wall-clock reading together with its offset from UTC).  Prices are exact rationals
  (the data model calls them decimals); rounding of binary floating point is not
  modelled.  Dimension columns hold strings, so a row always has a grouping key.
\<close>

datatype datetime = Naive int | Aware int int

record transaction =
  orderDate :: datetime
  categoryName :: string
  storeName :: string
  brandName :: string
  sellingPrice :: rat
  costPrice :: rat
  quantity :: int

type_synonym dataset = "transaction list"

datatype py_error = TypeError

subsection \<open>\<^verbatim>\<open>pd.to_datetime(..., utc=True)\<close>\<close>

text \<open>
  With \<^verbatim>\<open>utc=True\<close> a naive timestamp is localised as UTC (its wall-clock reading is
  kept) and an aware one is converted to UTC (its instant is kept).  The result is
  always aware with offset 0.
\<close>

fun to_datetime_utc :: "datetime \<Rightarrow> datetime" where
  "to_datetime_utc (Naive w) = Aware w 0"
| "to_datetime_utc (Aware w off) = Aware (w - off) 0"

text \<open>The instant of a timestamp on the UTC time line; aware timestamps compare by it.\<close>

fun instant :: "datetime \<Rightarrow> int" where
  "instant (Naive w) = w"
| "instant (Aware w off) = w - off"

definition utc_row :: "transaction \<Rightarrow> transaction" where
  "utc_row r = r\<lparr>orderDate := to_datetime_utc (orderDate r)\<rparr>"

definition normalize_orderDate :: "dataset \<Rightarrow> dataset" where
  \<comment> \<open>\<^verbatim>\<open>_data['orderDate'] = pd.to_datetime(_data['orderDate'], utc=True)\<close>\<close>
  "normalize_orderDate data = map utc_row data"

section \<open>Filter engine\<close>

text \<open>
  \<^verbatim>\<open>filter_data\<close> of \<^verbatim>\<open>main.py\<close>.  The function assigns to a column of the frame
  it was given, so the model returns the frame as the call leaves it together with the
  outcome.  A bound that is \<^verbatim>\<open>None\<close> is left as it is by the two guards, and the
  ordering comparison of the timestamp column with \<^verbatim>\<open>None\<close> then raises
  \<^verbatim>\<open>TypeError\<close>; the column assignment has already happened by then.  The
  \<^verbatim>\<open>st.cache_data\<close> decorator memoises calls and is not part of the function body
  modelled here.
\<close>

definition in_range :: "datetime \<Rightarrow> datetime \<Rightarrow> datetime \<Rightarrow> bool" where
  \<comment> \<open>\<^verbatim>\<open>(d >= start_date) & (d <= end_date)\<close> on UTC-aware values\<close>
  "in_range start_date end_date d =
     (instant start_date \<le> instant d \<and> instant d \<le> instant end_date)"

definition filter_data ::
  "dataset \<Rightarrow> string list \<Rightarrow> string list \<Rightarrow> datetime option \<Rightarrow> datetime option
     \<Rightarrow> dataset \<times> (py_error + dataset)" where
  "filter_data data categories stores start_date end_date =
     (let start_date = map_option to_datetime_utc start_date;
          end_date = map_option to_datetime_utc end_date;
          data = normalize_orderDate data
      in case start_date of
           None \<Rightarrow> (data, Inl TypeError)
         | Some s \<Rightarrow>
             (case end_date of
                None \<Rightarrow> (data, Inl TypeError)
              | Some e \<Rightarrow>
                  (data,
                   Inr (filter (\<lambda>r. in_range s e (orderDate r)
                                   \<and> categoryName r \<in> set categories
                                   \<and> storeName r \<in> set stores) data))))"

text \<open>\<^verbatim>\<open>filter_data\<close> of \<^verbatim>\<open>main_bakcup.py\<close>: one dimension, the brand.\<close>

definition filter_data_bakcup ::
  "dataset \<Rightarrow> string list \<Rightarrow> datetime option \<Rightarrow> datetime option
     \<Rightarrow> dataset \<times> (py_error + dataset)" where
  "filter_data_bakcup data brands start_date end_date =
     (let start_date = map_option to_datetime_utc start_date;
          end_date = map_option to_datetime_utc end_date;
          data = normalize_orderDate data
      in case start_date of
           None \<Rightarrow> (data, Inl TypeError)
         | Some s \<Rightarrow>
             (case end_date of
                None \<Rightarrow> (data, Inl TypeError)
              | Some e \<Rightarrow>
                  (data,
                   Inr (filter (\<lambda>r. in_range s e (orderDate r)
                                   \<and> brandName r \<in> set brands) data))))"

text \<open>
  The criteria as the specification words them: the UTC-normalised order date lies in
  the inclusive range, the category is one of the selected ones and so is the store.
\<close>

definition passes_criteria ::
  "datetime \<Rightarrow> datetime \<Rightarrow> string list \<Rightarrow> string list \<Rightarrow> transaction \<Rightarrow> bool" where
  "passes_criteria start_date end_date categories stores r =
     (instant (to_datetime_utc start_date) \<le> instant (to_datetime_utc (orderDate r))
      \<and> instant (to_datetime_utc (orderDate r)) \<le> instant (to_datetime_utc end_date)
      \<and> categoryName r \<in> set categories
      \<and> storeName r \<in> set stores)"

section \<open>Aggregation engine\<close>

text \<open>
  A float that a division can produce.  Dividing by zero does not raise in numpy: it
  gives \<^verbatim>\<open>nan\<close> for \<^verbatim>\<open>0/0\<close> and a signed infinity otherwise.
\<close>

datatype pyfloat = Finite rat | PosInf | NegInf | NaN

definition float_div :: "rat \<Rightarrow> rat \<Rightarrow> pyfloat" where
  "float_div a b =
     (if b = 0 then (if a = 0 then NaN else if 0 < a then PosInf else NegInf)
      else Finite (a / b))"

fun float_mul :: "pyfloat \<Rightarrow> rat \<Rightarrow> pyfloat" where
  "float_mul (Finite x) c = Finite (x * c)"
| "float_mul PosInf c = (if c = 0 then NaN else if 0 < c then PosInf else NegInf)"
| "float_mul NegInf c = (if c = 0 then NaN else if 0 < c then NegInf else PosInf)"
| "float_mul NaN c = NaN"

text \<open>
  \<^verbatim>\<open>groupby(by_col).agg(total_sales=..., total_cost=..., total_quantity=...).reset_index()\<close>:
  one row for each distinct key, the keys in ascending order (\<^verbatim>\<open>groupby\<close> sorts them),
  each row summing over the rows of its group.  The two lambdas multiply a group's
  prices by the quantities of the same rows.  The sums are the exact ones: the rounding
  of \<^verbatim>\<open>float64\<close> and the wrap-around of \<^verbatim>\<open>int64\<close> sums are not modelled, nor is
  the dropping of rows whose key is missing.
\<close>

record 'k group_totals =
  group_key :: 'k
  total_sales :: rat
  total_cost :: rat
  total_quantity :: int

record 'k aggregate_row = "'k group_totals" +
  profit :: rat
  profit_margin :: pyfloat

definition groupby_agg :: "(transaction \<Rightarrow> 'k::linorder) \<Rightarrow> dataset \<Rightarrow> 'k group_totals list" where
  "groupby_agg by_col df =
     map (\<lambda>k. let x = filter (\<lambda>r. by_col r = k) df
              in \<lparr>group_key = k,
                  total_sales = sum_list (map (\<lambda>r. sellingPrice r * of_int (quantity r)) x),
                  total_cost = sum_list (map (\<lambda>r. costPrice r * of_int (quantity r)) x),
                  total_quantity = sum_list (map quantity x)\<rparr>)
         (sort (remdups (map by_col df)))"

text \<open>Lines 53 to 60 of \<^verbatim>\<open>main.py\<close>: the margin divides the profit by the sales.\<close>

definition category_aggregated :: "dataset \<Rightarrow> string aggregate_row list" where
  "category_aggregated date_filtered_data =
     map (\<lambda>g. \<lparr>group_key = group_key g, total_sales = total_sales g,
                total_cost = total_cost g, total_quantity = total_quantity g,
                profit = total_sales g - total_cost g,
                profit_margin =
                  float_mul (float_div (total_sales g - total_cost g) (total_sales g)) 100\<rparr>)
         (groupby_agg categoryName date_filtered_data)"

definition filter_data_by_date ::
  "dataset \<Rightarrow> datetime option \<Rightarrow> datetime option
     \<Rightarrow> dataset \<times> (py_error + dataset \<times> string aggregate_row list)" where
  "filter_data_by_date data start_date end_date =
     (let start_date = map_option to_datetime_utc start_date;
          end_date = map_option to_datetime_utc end_date;
          data = normalize_orderDate data
      in case start_date of
           None \<Rightarrow> (data, Inl TypeError)
         | Some s \<Rightarrow>
             (case end_date of
                None \<Rightarrow> (data, Inl TypeError)
              | Some e \<Rightarrow>
                  (let date_filtered_data = filter (\<lambda>r. in_range s e (orderDate r)) data
                   in (data, Inr (date_filtered_data, category_aggregated date_filtered_data)))))"

text \<open>
  Lines 157 to 167 of \<^verbatim>\<open>main.py\<close>, run on \<^verbatim>\<open>filtered_data\<close> when it has at
  least one row: the margin divides the profit by the sum of sales and cost.
\<close>

definition overall_analysis :: "dataset \<Rightarrow> string aggregate_row list" where
  "overall_analysis filtered_data =
     map (\<lambda>g. \<lparr>group_key = group_key g, total_sales = total_sales g,
                total_cost = total_cost g, total_quantity = total_quantity g,
                profit = total_sales g - total_cost g,
                profit_margin =
                  float_mul (float_div (total_sales g - total_cost g)
                                       (total_sales g + total_cost g)) 100\<rparr>)
         (groupby_agg categoryName filtered_data)"

section \<open>Selection defaults\<close>

text \<open>
  \<^verbatim>\<open>Series.unique()\<close> lists the distinct values in order of first appearance;
  \<^verbatim>\<open>value_counts()\<close> counts the rows of each and orders the values by descending
  count, values of equal count staying in order of first appearance;
  \<^verbatim>\<open>head(n)\<close> keeps the first \<open>n\<close>.
\<close>

definition unique :: "'a list \<Rightarrow> 'a list" where
  "unique xs = rev (remdups (rev xs))"

definition value_counts :: "'a list \<Rightarrow> ('a \<times> nat) list" where
  "value_counts xs =
     sort_key (\<lambda>p. - int (snd p)) (map (\<lambda>k. (k, count_list xs k)) (unique xs))"

definition get_top_categories :: "dataset \<Rightarrow> nat \<Rightarrow> string list" where
  "get_top_categories data n = map fst (take n (value_counts (map categoryName data)))"

definition get_top_stores :: "dataset \<Rightarrow> nat \<Rightarrow> string list" where
  "get_top_stores data n = map fst (take n (value_counts (map storeName data)))"

text \<open>
  The value the number input starts with,
  \<^verbatim>\<open>min(250, n_categories_available)\<close>.
\<close>

definition default_n_categories :: "dataset \<Rightarrow> nat" where
  "default_n_categories data = min 250 (length (unique (map categoryName data)))"

text \<open>
  Lines 119 and 143 of \<^verbatim>\<open>main.py\<close>: the categories offered by the sidebar are
  \<^verbatim>\<open>get_top_categories(data, n=n_categories)\<close>, and an empty selection is replaced
  by that list.  Lines 128 to 144 do the same for the stores, with all stores offered.
\<close>

definition selected_categories :: "dataset \<Rightarrow> nat \<Rightarrow> string list \<Rightarrow> string list" where
  "selected_categories data n_categories selected_categories_sidebar =
     (let top_categories = get_top_categories data n_categories
      in if selected_categories_sidebar \<noteq> [] then selected_categories_sidebar
         else top_categories)"

definition selected_stores :: "dataset \<Rightarrow> string list \<Rightarrow> string list" where
  "selected_stores data selected_stores_sidebar =
     (let n_stores_available = length (unique (map storeName data));
          top_stores = get_top_stores data n_stores_available
      in if selected_stores_sidebar \<noteq> [] then selected_stores_sidebar else top_stores)"

text \<open>
  Line 147: the call of \<^verbatim>\<open>filter_data\<close>.  The dates come from the date pickers and
  are never \<^verbatim>\<open>None\<close>.
\<close>

definition main_filtered_data ::
  "dataset \<Rightarrow> nat \<Rightarrow> string list \<Rightarrow> string list \<Rightarrow> datetime \<Rightarrow> datetime
     \<Rightarrow> dataset \<times> (py_error + dataset)" where
  "main_filtered_data data n_categories selected_categories_sidebar selected_stores_sidebar
       start_date end_date =
     filter_data data
       (selected_categories data n_categories selected_categories_sidebar)
       (selected_stores data selected_stores_sidebar)
       (Some start_date) (Some end_date)"

text \<open>
  Lines 147 to 180: the analyses the script runs and what it hands to each.  The
  analysis functions live in other modules; a call is recorded with its arguments.
  \<^verbatim>\<open>filter_data\<close> has rewritten the order dates of \<^verbatim>\<open>data\<close> by the time
  \<^verbatim>\<open>filter_data_by_date\<close> and \<^verbatim>\<open>store_performance_analysis\<close> receive it.  With no
  filtered row the script only shows a warning.
\<close>

datatype analysis_call =
    category_performance_analysis dataset "string list" "string list"
  | weekly_sales_analysis dataset "string list" "string list"
  | daily_sales_analysis dataset "string list" "string list"
  | store_performance_analysis dataset dataset "string list" "string list"
  | hourly_sales_analysis dataset "string list"
  | profit_margin_analysis dataset "string list"
  | top_products_analysis dataset "string list"

definition main_analysis_calls ::
  "dataset \<Rightarrow> nat \<Rightarrow> string list \<Rightarrow> string list \<Rightarrow> datetime \<Rightarrow> datetime
     \<Rightarrow> py_error + analysis_call list" where
  "main_analysis_calls data n_categories selected_categories_sidebar selected_stores_sidebar
       start_date end_date =
     (let top_categories = get_top_categories data n_categories;
          sel_categories = selected_categories data n_categories selected_categories_sidebar;
          sel_stores = selected_stores data selected_stores_sidebar
      in case filter_data data sel_categories sel_stores (Some start_date) (Some end_date) of
           (data, Inl e) \<Rightarrow> Inl e
         | (data, Inr filtered_data) \<Rightarrow>
             (case filter_data_by_date data (Some start_date) (Some end_date) of
                (data, Inl e) \<Rightarrow> Inl e
              | (data, Inr (date_filtered_data, aggregated)) \<Rightarrow>
                  if length filtered_data > 0
                  then Inr [category_performance_analysis filtered_data sel_categories sel_stores,
                            weekly_sales_analysis filtered_data sel_categories top_categories,
                            daily_sales_analysis filtered_data sel_categories sel_stores,
                            store_performance_analysis data date_filtered_data
                              sel_categories sel_stores,
                            hourly_sales_analysis filtered_data sel_categories,
                            profit_margin_analysis filtered_data sel_categories,
                            top_products_analysis filtered_data sel_categories]
                  else Inr []))"

section \<open>Example data\<close>

text \<open>
  The rows of the specification's scenario (dates counted in days), a row sold at price
  zero, a row with quantity zero, and a dataset with 251 categories of one row each.
\<close>

definition scenario_a1 :: transaction where
  "scenario_a1 = \<lparr>orderDate = Naive 1, categoryName = ''A'', storeName = ''S'',
     brandName = ''X'', sellingPrice = 10, costPrice = 6, quantity = 2\<rparr>"

definition scenario_a2 :: transaction where
  "scenario_a2 = \<lparr>orderDate = Naive 2, categoryName = ''A'', storeName = ''S'',
     brandName = ''X'', sellingPrice = 10, costPrice = 6, quantity = 1\<rparr>"

definition scenario_b :: transaction where
  "scenario_b = \<lparr>orderDate = Naive 3, categoryName = ''B'', storeName = ''S'',
     brandName = ''X'', sellingPrice = 5, costPrice = 5, quantity = 4\<rparr>"

definition free_sample :: transaction where
  "free_sample = \<lparr>orderDate = Naive 1, categoryName = ''C'', storeName = ''S'',
     brandName = ''X'', sellingPrice = 0, costPrice = 5, quantity = 1\<rparr>"

definition unsold :: transaction where
  "unsold = \<lparr>orderDate = Naive 1, categoryName = ''Z'', storeName = ''S'',
     brandName = ''X'', sellingPrice = 10, costPrice = 6, quantity = 0\<rparr>"

definition many_categories :: dataset where
  "many_categories =
     map (\<lambda>i. \<lparr>orderDate = Naive 1, categoryName = replicate (Suc i) CHR ''c'',
                storeName = ''S'', brandName = ''X'', sellingPrice = 1, costPrice = 1,
                quantity = 1\<rparr>) [0..<251]"

lemmas example_defs =
  scenario_a1_def scenario_a2_def scenario_b_def free_sample_def unsold_def utc_row_def

section \<open>Properties of the UTC normalisation\<close>

lemma instant_to_datetime_utc [simp]: "instant (to_datetime_utc d) = instant d"
  by (cases d) simp_all

lemma to_datetime_utc_idem [simp]: "to_datetime_utc (to_datetime_utc d) = to_datetime_utc d"
  by (cases d) simp_all

lemma utc_row_idem [simp]: "utc_row (utc_row r) = utc_row r"
  by (simp add: utc_row_def)

lemma utc_row_columns [simp]:
  "orderDate (utc_row r) = to_datetime_utc (orderDate r)"
  "categoryName (utc_row r) = categoryName r"
  "storeName (utc_row r) = storeName r"
  "brandName (utc_row r) = brandName r"
  "sellingPrice (utc_row r) = sellingPrice r"
  "costPrice (utc_row r) = costPrice r"
  "quantity (utc_row r) = quantity r"
  by (simp_all add: utc_row_def)

lemma normalize_orderDate_idem:
  "normalize_orderDate (normalize_orderDate D) = normalize_orderDate D"
  by (simp add: normalize_orderDate_def)

lemma normalize_orderDate_filter:
  "normalize_orderDate (filter P (normalize_orderDate D)) = filter P (normalize_orderDate D)"
  by (induction D) (simp_all add: normalize_orderDate_def)

lemma in_range_to_datetime_utc [simp]:
  "in_range (to_datetime_utc a) (to_datetime_utc b) (to_datetime_utc d) = in_range a b d"
  by (simp add: in_range_def)

section \<open>Properties of the filter engine\<close>

lemma filter_data_Some:
  "filter_data D cs ss (Some a) (Some b) =
     (normalize_orderDate D,
      Inr (filter (\<lambda>r. in_range (to_datetime_utc a) (to_datetime_utc b) (orderDate r)
                      \<and> categoryName r \<in> set cs \<and> storeName r \<in> set ss)
             (normalize_orderDate D)))"
  by (simp add: filter_data_def Let_def)

lemma filter_data_bakcup_Some:
  "filter_data_bakcup D bs (Some a) (Some b) =
     (normalize_orderDate D,
      Inr (filter (\<lambda>r. in_range (to_datetime_utc a) (to_datetime_utc b) (orderDate r)
                      \<and> brandName r \<in> set bs)
             (normalize_orderDate D)))"
  by (simp add: filter_data_bakcup_def Let_def)

lemma filter_data_Inr_cases:
  assumes "snd (filter_data D cs ss a b) = Inr R"
  obtains s e where "a = Some s" and "b = Some e"
  using assms by (cases a; cases b) (simp_all add: filter_data_def Let_def)

lemma fst_filter_data: "fst (filter_data D cs ss a b) = normalize_orderDate D"
  by (cases a; cases b) (simp_all add: filter_data_def Let_def)

lemma fst_filter_data_by_date: "fst (filter_data_by_date D a b) = normalize_orderDate D"
  by (cases a; cases b) (simp_all add: filter_data_by_date_def Let_def)

lemma filter_normalize_orderDate:
  "filter (\<lambda>r. in_range (to_datetime_utc a) (to_datetime_utc b) (orderDate r)
              \<and> categoryName r \<in> set cs \<and> storeName r \<in> set ss)
          (normalize_orderDate D)
   = normalize_orderDate (filter (passes_criteria a b cs ss) D)"
  by (induction D) (simp_all add: normalize_orderDate_def passes_criteria_def in_range_def)

lemma filter_data_bakcup_subseq:
  "\<exists>R. snd (filter_data_bakcup D bs (Some a) (Some b)) = Inr R
       \<and> subseq R (fst (filter_data_bakcup D bs (Some a) (Some b)))"
  by (simp add: filter_data_bakcup_Some)

text \<open>
  C1: for present bounds \<open>a\<close> and \<open>b\<close>, \<^verbatim>\<open>filter_data\<close> returns the rows of \<open>D\<close> that
  pass the criteria, in their original order and with the order date in UTC: the
  result is a subsequence of the frame as the call leaves it, the rows it is taken
  from are a subsequence of \<open>D\<close>, and a row of \<open>D\<close> is among them exactly when its
  UTC-normalised order date lies in the inclusive range, its category is selected and
  its store is selected.
\<close>

theorem filter_data_subsequence_iff:
  "snd (filter_data D cs ss (Some a) (Some b))
     = Inr (normalize_orderDate (filter (passes_criteria a b cs ss) D))
   \<and> subseq (normalize_orderDate (filter (passes_criteria a b cs ss) D))
            (fst (filter_data D cs ss (Some a) (Some b)))
   \<and> subseq (filter (passes_criteria a b cs ss) D) D
   \<and> (r \<in> set (filter (passes_criteria a b cs ss) D) \<longleftrightarrow>
        r \<in> set D
        \<and> instant (to_datetime_utc a) \<le> instant (to_datetime_utc (orderDate r))
        \<and> instant (to_datetime_utc (orderDate r)) \<le> instant (to_datetime_utc b)
        \<and> categoryName r \<in> set cs
        \<and> storeName r \<in> set ss)"
proof -
  have "subseq (normalize_orderDate (filter (passes_criteria a b cs ss) D))
               (normalize_orderDate D)"
    unfolding normalize_orderDate_def by (rule subseq_map) simp
  moreover have "r \<in> set (filter (passes_criteria a b cs ss) D) \<longleftrightarrow>
       r \<in> set D
       \<and> instant (to_datetime_utc a) \<le> instant (to_datetime_utc (orderDate r))
       \<and> instant (to_datetime_utc (orderDate r)) \<le> instant (to_datetime_utc b)
       \<and> categoryName r \<in> set cs
       \<and> storeName r \<in> set ss"
    by (simp add: passes_criteria_def)
  ultimately show ?thesis
    by (simp add: filter_data_Some filter_normalize_orderDate)
qed

theorem filter_data_subsequence_iff_witness:
  "snd (filter_data [scenario_a1, scenario_a2, scenario_b] [''A'', ''B''] [''S'']
          (Some (Naive 2)) (Some (Naive 3)))
     = Inr [utc_row scenario_a2, utc_row scenario_b]
   \<and> subseq [scenario_a2, scenario_b] [scenario_a1, scenario_a2, scenario_b]"
proof -
  have "filter (passes_criteria (Naive 2) (Naive 3) [''A'', ''B''] [''S''])
          [scenario_a1, scenario_a2, scenario_b] = [scenario_a2, scenario_b]"
    by (simp add: passes_criteria_def example_defs)
  with filter_data_subsequence_iff
         [of "[scenario_a1, scenario_a2, scenario_b]" "[''A'', ''B'']" "[''S'']"
             "Naive 2" "Naive 3"]
  show ?thesis by (simp add: normalize_orderDate_def)
qed

text \<open>
  C7: with present bounds, an empty category list or an empty store list selects no
  row at all.
\<close>

theorem filter_data_empty_selection:
  "snd (filter_data D [] ss (Some a) (Some b)) = Inr []
   \<and> snd (filter_data D cs [] (Some a) (Some b)) = Inr []"
  by (simp add: filter_data_Some)

text \<open>
  C9: \<^verbatim>\<open>filter_data\<close> is idempotent: when a call returns \<open>R\<close>, the call with the same
  criteria on \<open>R\<close> returns \<open>R\<close> again, and leaves \<open>R\<close> as it is.
\<close>

theorem filter_data_idempotent:
  assumes "snd (filter_data D cs ss a b) = Inr R"
  shows "filter_data R cs ss a b = (R, Inr R)"
proof -
  from assms obtain s e where ab: "a = Some s" "b = Some e"
    by (rule filter_data_Inr_cases)
  let ?P = "\<lambda>r. in_range (to_datetime_utc s) (to_datetime_utc e) (orderDate r)
                 \<and> categoryName r \<in> set cs \<and> storeName r \<in> set ss"
  from assms ab have R: "R = filter ?P (normalize_orderDate D)"
    by (simp add: filter_data_Some)
  then have "normalize_orderDate R = R"
    by (simp add: normalize_orderDate_filter)
  moreover have "filter ?P R = R"
    unfolding R by simp
  ultimately show ?thesis
    using ab by (simp add: filter_data_Some)
qed

theorem filter_data_idempotent_witness:
  "snd (filter_data [scenario_a1, scenario_a2, scenario_b] [''A''] [''S'']
          (Some (Naive 1)) (Some (Naive 2)))
     = Inr [utc_row scenario_a1, utc_row scenario_a2]
   \<and> filter_data [utc_row scenario_a1, utc_row scenario_a2] [''A''] [''S'']
          (Some (Naive 1)) (Some (Naive 2))
     = ([utc_row scenario_a1, utc_row scenario_a2],
        Inr [utc_row scenario_a1, utc_row scenario_a2])"
proof -
  have h: "snd (filter_data [scenario_a1, scenario_a2, scenario_b] [''A''] [''S'']
                  (Some (Naive 1)) (Some (Naive 2)))
             = Inr [utc_row scenario_a1, utc_row scenario_a2]"
    by (simp add: filter_data_Some normalize_orderDate_def in_range_def example_defs)
  from filter_data_idempotent [OF h] h show ?thesis by simp
qed

text \<open>
  C4, evaluated at a call with an absent bound: the call rewrites the order-date
  column of the frame, then fails with \<^verbatim>\<open>TypeError\<close> at the comparison.
\<close>

theorem filter_data_absent_bound:
  "filter_data [scenario_a1] [''A''] [''S''] None (Some (Naive 2))
     = ([utc_row scenario_a1], Inl TypeError)
   \<and> filter_data [scenario_a1] [''A''] [''S''] (Some (Naive 1)) None
     = ([utc_row scenario_a1], Inl TypeError)
   \<and> utc_row scenario_a1 \<noteq> scenario_a1"
  by (simp add: filter_data_def normalize_orderDate_def example_defs)

text \<open>
  C5 as stated fails: a call replaces a timezone-naive order date of the input frame
  by a UTC-aware one.
\<close>

theorem filter_data_mutates_orderDate:
  "fst (filter_data [scenario_a1] [''A''] [''S''] (Some (Naive 1)) (Some (Naive 2)))
     \<noteq> [scenario_a1]
   \<and> fst (filter_data_by_date [scenario_a1] (Some (Naive 1)) (Some (Naive 2)))
     \<noteq> [scenario_a1]"
  by (simp add: fst_filter_data fst_filter_data_by_date normalize_orderDate_def example_defs)

text \<open>
  C5, amended: \<^verbatim>\<open>filter_data\<close> and \<^verbatim>\<open>filter_data_by_date\<close> leave the input frame
  with its order-date column replaced by the UTC normalisation of that column and with
  every other column of every row as it was; normalising again changes nothing.
\<close>

theorem filter_frame_effect:
  "fst (filter_data D cs ss a b) = normalize_orderDate D
   \<and> fst (filter_data_by_date D a b) = normalize_orderDate D
   \<and> map orderDate (normalize_orderDate D) = map to_datetime_utc (map orderDate D)
   \<and> map categoryName (normalize_orderDate D) = map categoryName D
   \<and> map storeName (normalize_orderDate D) = map storeName D
   \<and> map brandName (normalize_orderDate D) = map brandName D
   \<and> map sellingPrice (normalize_orderDate D) = map sellingPrice D
   \<and> map costPrice (normalize_orderDate D) = map costPrice D
   \<and> map quantity (normalize_orderDate D) = map quantity D
   \<and> normalize_orderDate (normalize_orderDate D) = normalize_orderDate D"
  by (simp add: fst_filter_data fst_filter_data_by_date normalize_orderDate_idem)
     (simp add: normalize_orderDate_def comp_def)

section \<open>Properties of the aggregation engine\<close>

lemma map_group_key_groupby_agg:
  "map group_key (groupby_agg by_col D) = sort (remdups (map by_col D))"
  by (simp add: groupby_agg_def comp_def Let_def)

lemma groupby_agg_key_inj:
  assumes "g \<in> set (groupby_agg by_col D)" and "g' \<in> set (groupby_agg by_col D)"
    and "group_key g = group_key g'"
  shows "g = g'"
  using assms by (auto simp: groupby_agg_def Let_def)

lemma category_aggregated_columns:
  "map total_sales (category_aggregated D) = map total_sales (groupby_agg categoryName D)"
  "map total_cost (category_aggregated D) = map total_cost (groupby_agg categoryName D)"
  "map total_quantity (category_aggregated D) = map total_quantity (groupby_agg categoryName D)"
  "map group_key (category_aggregated D) = map group_key (groupby_agg categoryName D)"
  by (simp_all add: category_aggregated_def comp_def)

lemma overall_analysis_columns:
  "map total_sales (overall_analysis D) = map total_sales (groupby_agg categoryName D)"
  "map total_cost (overall_analysis D) = map total_cost (groupby_agg categoryName D)"
  "map total_quantity (overall_analysis D) = map total_quantity (groupby_agg categoryName D)"
  "map group_key (overall_analysis D) = map group_key (groupby_agg categoryName D)"
  by (simp_all add: overall_analysis_def comp_def)

lemma category_aggregated_row:
  assumes "r \<in> set (category_aggregated D)"
  shows "profit r = total_sales r - total_cost r"
    and "profit_margin r = float_mul (float_div (profit r) (total_sales r)) 100"
  using assms by (auto simp: category_aggregated_def)

lemma overall_analysis_row:
  assumes "r \<in> set (overall_analysis D)"
  shows "profit r = total_sales r - total_cost r"
    and "profit_margin r = float_mul (float_div (profit r) (total_sales r + total_cost r)) 100"
  using assms by (auto simp: overall_analysis_def)

lemma float_mul_div_zero:
  "float_mul (float_div p 0) 100 = (if p = 0 then NaN else if 0 < p then PosInf else NegInf)"
  by (simp add: float_div_def)

lemma category_aggregated_zero_sales:
  assumes "r \<in> set (category_aggregated D)" and "total_sales r = 0"
  shows "profit_margin r = (if profit r = 0 then NaN else if 0 < profit r then PosInf else NegInf)"
  using category_aggregated_row(2) [OF assms(1)] assms(2) by (simp only: float_mul_div_zero)

lemma overall_analysis_zero_denominator:
  assumes "r \<in> set (overall_analysis D)" and "total_sales r + total_cost r = 0"
  shows "profit_margin r = (if profit r = 0 then NaN else if 0 < profit r then PosInf else NegInf)"
  using overall_analysis_row(2) [OF assms(1)] assms(2) by (simp only: float_mul_div_zero)

lemma same_key_same_totals:
  assumes "r1 \<in> set (category_aggregated D)" and "r2 \<in> set (overall_analysis D)"
    and "group_key r1 = group_key r2"
  shows "total_sales r2 = total_sales r1 \<and> total_cost r2 = total_cost r1
         \<and> total_quantity r2 = total_quantity r1 \<and> profit r2 = profit r1"
proof -
  from assms(1) obtain g1 where g1: "g1 \<in> set (groupby_agg categoryName D)"
    "group_key r1 = group_key g1" "total_sales r1 = total_sales g1"
    "total_cost r1 = total_cost g1" "total_quantity r1 = total_quantity g1"
    "profit r1 = total_sales g1 - total_cost g1"
    by (auto simp: category_aggregated_def)
  from assms(2) obtain g2 where g2: "g2 \<in> set (groupby_agg categoryName D)"
    "group_key r2 = group_key g2" "total_sales r2 = total_sales g2"
    "total_cost r2 = total_cost g2" "total_quantity r2 = total_quantity g2"
    "profit r2 = total_sales g2 - total_cost g2"
    by (auto simp: overall_analysis_def)
  from g1 g2 assms(3) have "g1 = g2" by (simp add: groupby_agg_key_inj)
  with g1 g2 show ?thesis by simp
qed

lemma margin_formulas_differ:
  fixes p s c :: rat
  assumes "0 < s" and "0 < c" and "p \<noteq> 0"
  shows "p / s * 100 \<noteq> p / (s + c) * 100"
proof
  assume "p / s * 100 = p / (s + c) * 100"
  then have "p / s = p / (s + c)" by simp
  with assms have "p * (s + c) = p * s" by (simp add: field_simps)
  with assms show False by (simp add: algebra_simps)
qed

text \<open>
  C8: aggregating no rows gives no group rows, for every grouping column, and
  \<^verbatim>\<open>filter_data_by_date\<close> on an empty frame returns an empty frame and an empty
  table.
\<close>

theorem aggregate_empty:
  "groupby_agg by_col [] = []
   \<and> category_aggregated [] = []
   \<and> filter_data_by_date [] (Some a) (Some b) = ([], Inr ([], []))"
  by (simp add: groupby_agg_def category_aggregated_def filter_data_by_date_def
        normalize_orderDate_def)

text \<open>
  C2 as stated fails: a group with sales of zero and a cost of five gets the margin
  minus infinity.
\<close>

theorem zero_sales_margin_infinite:
  "snd (filter_data_by_date [free_sample, scenario_a1] (Some (Naive 1)) (Some (Naive 2)))
     = Inr ([utc_row free_sample, utc_row scenario_a1],
            [\<lparr>group_key = ''A'', total_sales = 20, total_cost = 12, total_quantity = 2,
               profit = 8, profit_margin = Finite 40\<rparr>,
             \<lparr>group_key = ''C'', total_sales = 0, total_cost = 5, total_quantity = 1,
               profit = - 5, profit_margin = NegInf\<rparr>])"
  by (simp add: filter_data_by_date_def Let_def normalize_orderDate_def in_range_def
        category_aggregated_def groupby_agg_def float_div_def example_defs)

text \<open>
  C2, amended: a group whose margin denominator is zero (the sales on the
  \<^verbatim>\<open>filter_data_by_date\<close> path, sales plus cost on the overall path) gets the value
  the float division gives: not-a-number when the profit is zero too, plus infinity
  when the profit is positive, minus infinity when it is negative.  Nothing is
  raised, and each table has a row for every category of its input.
\<close>

theorem zero_denominator_margin:
  "(r \<in> set (category_aggregated D) \<and> total_sales r = 0 \<longrightarrow>
      profit_margin r
        = (if profit r = 0 then NaN else if 0 < profit r then PosInf else NegInf))
   \<and> (r' \<in> set (overall_analysis D') \<and> total_sales r' + total_cost r' = 0 \<longrightarrow>
      profit_margin r'
        = (if profit r' = 0 then NaN else if 0 < profit r' then PosInf else NegInf))
   \<and> map group_key (category_aggregated D) = sort (remdups (map categoryName D))
   \<and> map group_key (overall_analysis D') = sort (remdups (map categoryName D'))"
proof (intro conjI impI)
  show "map group_key (category_aggregated D) = sort (remdups (map categoryName D))"
    by (simp only: category_aggregated_columns(4) map_group_key_groupby_agg)
  show "map group_key (overall_analysis D') = sort (remdups (map categoryName D'))"
    by (simp only: overall_analysis_columns(4) map_group_key_groupby_agg)
qed (blast intro: category_aggregated_zero_sales overall_analysis_zero_denominator)+

theorem zero_denominator_margin_witness:
  "category_aggregated [free_sample, scenario_a1]
     = [\<lparr>group_key = ''A'', total_sales = 20, total_cost = 12, total_quantity = 2,
          profit = 8, profit_margin = Finite 40\<rparr>,
        \<lparr>group_key = ''C'', total_sales = 0, total_cost = 5, total_quantity = 1,
          profit = - 5, profit_margin = NegInf\<rparr>]
   \<and> overall_analysis [unsold, scenario_a1]
     = [\<lparr>group_key = ''A'', total_sales = 20, total_cost = 12, total_quantity = 2,
          profit = 8, profit_margin = Finite 25\<rparr>,
        \<lparr>group_key = ''Z'', total_sales = 0, total_cost = 0, total_quantity = 0,
          profit = 0, profit_margin = NaN\<rparr>]"
proof -
  let ?c = "category_aggregated [free_sample, scenario_a1] ! 1"
  let ?z = "overall_analysis [unsold, scenario_a1] ! 1"
  have c: "group_key ?c = ''C''" "total_sales ?c = 0" "total_cost ?c = 5"
    "total_quantity ?c = 1" "profit ?c = - 5"
    and ca: "category_aggregated [free_sample, scenario_a1] ! 0
               = \<lparr>group_key = ''A'', total_sales = 20, total_cost = 12, total_quantity = 2,
                  profit = 8, profit_margin = Finite 40\<rparr>"
    and cl: "length (category_aggregated [free_sample, scenario_a1]) = 2"
    by (simp_all add: category_aggregated_def groupby_agg_def float_div_def example_defs)
  have z: "group_key ?z = ''Z''" "total_sales ?z = 0" "total_cost ?z = 0"
    "total_quantity ?z = 0" "profit ?z = 0"
    and za: "overall_analysis [unsold, scenario_a1] ! 0
               = \<lparr>group_key = ''A'', total_sales = 20, total_cost = 12, total_quantity = 2,
                  profit = 8, profit_margin = Finite 25\<rparr>"
    and zl: "length (overall_analysis [unsold, scenario_a1]) = 2"
    by (simp_all add: overall_analysis_def groupby_agg_def float_div_def example_defs)
  have "?c \<in> set (category_aggregated [free_sample, scenario_a1])"
    using cl by (simp only: nth_mem)
  moreover have "?z \<in> set (overall_analysis [unsold, scenario_a1])"
    using zl by (simp only: nth_mem)
  ultimately have m: "profit_margin ?c = NegInf" "profit_margin ?z = NaN"
    using zero_denominator_margin
            [of ?c "[free_sample, scenario_a1]" ?z "[unsold, scenario_a1]"] c z
    by simp_all
  have "?c = \<lparr>group_key = ''C'', total_sales = 0, total_cost = 5, total_quantity = 1,
               profit = - 5, profit_margin = NegInf\<rparr>"
    using c m(1) by (cases ?c) simp
  moreover have "?z = \<lparr>group_key = ''Z'', total_sales = 0, total_cost = 0,
                        total_quantity = 0, profit = 0, profit_margin = NaN\<rparr>"
    using z m(2) by (cases ?z) simp
  ultimately show ?thesis
    using ca za cl zl by (simp add: list_eq_iff_nth_eq less_Suc_eq numeral_2_eq_2)
qed

text \<open>
  C6: the two margin formulas differ.  For the row of a category in the table of
  \<^verbatim>\<open>filter_data_by_date\<close> and the row of the same category in the overall table,
  both computed from the same rows, the sums and the profit agree; when sales and cost
  are positive and the profit is not zero, the first margin is profit / sales times
  100, the second is profit / (sales + cost) times 100, and the two are different.
\<close>

theorem margin_formulas_disagree:
  assumes "r1 \<in> set (category_aggregated D)" and "r2 \<in> set (overall_analysis D)"
    and "group_key r1 = group_key r2"
    and "0 < total_sales r1" and "0 < total_cost r1" and "profit r1 \<noteq> 0"
  shows "total_sales r2 = total_sales r1 \<and> total_cost r2 = total_cost r1
    \<and> profit r2 = profit r1
    \<and> profit_margin r1 = Finite (profit r1 / total_sales r1 * 100)
    \<and> profit_margin r2 = Finite (profit r1 / (total_sales r1 + total_cost r1) * 100)
    \<and> profit_margin r1 \<noteq> profit_margin r2"
proof -
  note same = same_key_same_totals [OF assms(1-3)]
  have m1: "profit_margin r1 = Finite (profit r1 / total_sales r1 * 100)"
    using assms(4) by (simp add: category_aggregated_row(2) [OF assms(1)] float_div_def)
  have "total_sales r1 + total_cost r1 \<noteq> 0"
    using assms(4,5) by simp
  then have m2: "profit_margin r2
                   = Finite (profit r1 / (total_sales r1 + total_cost r1) * 100)"
    using same by (simp add: overall_analysis_row(2) [OF assms(2)] float_div_def)
  from margin_formulas_differ [OF assms(4-6)] m1 m2 same show ?thesis by simp
qed

theorem margin_formulas_disagree_witness:
  "category_aggregated [scenario_a1, scenario_a2]
     = [\<lparr>group_key = ''A'', total_sales = 30, total_cost = 18, total_quantity = 3,
          profit = 12, profit_margin = Finite 40\<rparr>]
   \<and> overall_analysis [scenario_a1, scenario_a2]
     = [\<lparr>group_key = ''A'', total_sales = 30, total_cost = 18, total_quantity = 3,
          profit = 12, profit_margin = Finite 25\<rparr>]
   \<and> profit_margin (hd (category_aggregated [scenario_a1, scenario_a2]))
     \<noteq> profit_margin (hd (overall_analysis [scenario_a1, scenario_a2]))"
proof -
  let ?r1 = "\<lparr>group_key = ''A'', total_sales = 30, total_cost = 18, total_quantity = 3,
              profit = 12, profit_margin = Finite 40\<rparr>"
  let ?r2 = "\<lparr>group_key = ''A'', total_sales = 30, total_cost = 18, total_quantity = 3,
              profit = 12, profit_margin = Finite 25\<rparr>"
  have a: "category_aggregated [scenario_a1, scenario_a2] = [?r1]"
    by (simp add: category_aggregated_def groupby_agg_def float_div_def example_defs)
  have b: "overall_analysis [scenario_a1, scenario_a2] = [?r2]"
    by (simp add: overall_analysis_def groupby_agg_def float_div_def example_defs)
  have "?r1 \<in> set (category_aggregated [scenario_a1, scenario_a2])"
    by (simp add: a)
  moreover have "?r2 \<in> set (overall_analysis [scenario_a1, scenario_a2])"
    by (simp add: b)
  ultimately have "profit_margin ?r1 \<noteq> profit_margin ?r2"
    using margin_formulas_disagree [of ?r1 "[scenario_a1, scenario_a2]" ?r2] by simp
  with a b show ?thesis by simp
qed

section \<open>Properties of the selection defaults\<close>

lemma set_unique [simp]: "set (unique xs) = set xs"
  by (simp add: unique_def)

lemma distinct_unique [simp]: "distinct (unique xs)"
  by (simp add: unique_def)

lemma unique_distinct: "distinct xs \<Longrightarrow> unique xs = xs"
  by (simp add: unique_def distinct_remdups_id)

lemma set_map_fst_value_counts: "set (map fst (value_counts xs)) = set xs"
  by (simp add: value_counts_def image_image)

lemma length_value_counts: "length (value_counts xs) = length (unique xs)"
  by (simp add: value_counts_def)

lemma distinct_map_fst_value_counts: "distinct (map fst (value_counts xs))"
proof -
  have "distinct (map (\<lambda>k. (k, count_list xs k)) (unique xs))"
    by (simp add: distinct_map inj_on_def)
  moreover have "inj_on fst (set (map (\<lambda>k. (k, count_list xs k)) (unique xs)))"
    by (auto simp: inj_on_def)
  ultimately show ?thesis
    by (simp add: value_counts_def distinct_map)
qed

lemma get_top_categories_distinct: "distinct (get_top_categories data n)"
  unfolding get_top_categories_def take_map [symmetric]
  by (rule distinct_take) (rule distinct_map_fst_value_counts)

lemma get_top_categories_length:
  "length (get_top_categories data n) = min n (length (unique (map categoryName data)))"
  by (simp add: get_top_categories_def length_value_counts min.commute)

lemma some_category_outside_top:
  assumes "n < length (unique (map categoryName data))"
  shows "\<exists>r\<in>set data. categoryName r \<notin> set (get_top_categories data n)"
proof (rule ccontr)
  assume "\<not> ?thesis"
  then have "set (map categoryName data) \<subseteq> set (get_top_categories data n)"
    by auto
  then have "card (set (unique (map categoryName data)))
               \<le> card (set (get_top_categories data n))"
    by (simp add: card_mono)
  moreover have "card (set (unique (map categoryName data)))
                   = length (unique (map categoryName data))"
    by (rule distinct_card) (rule distinct_unique)
  moreover have "card (set (get_top_categories data n)) = length (get_top_categories data n)"
    by (rule distinct_card) (rule get_top_categories_distinct)
  ultimately have "length (unique (map categoryName data))
                     \<le> length (get_top_categories data n)"
    by simp
  with assms show False
    by (simp add: get_top_categories_length)
qed

lemma filter_data_passes:
  "filter_data D cs ss (Some a) (Some b)
     = (normalize_orderDate D,
        Inr (normalize_orderDate (filter (passes_criteria a b cs ss) D)))"
  by (simp add: filter_data_Some filter_normalize_orderDate)

lemma filter_data_by_date_Some:
  "filter_data_by_date D (Some a) (Some b)
     = (normalize_orderDate D,
        Inr (filter (\<lambda>r. in_range (to_datetime_utc a) (to_datetime_utc b) (orderDate r))
               (normalize_orderDate D),
             category_aggregated
               (filter (\<lambda>r. in_range (to_datetime_utc a) (to_datetime_utc b) (orderDate r))
                  (normalize_orderDate D))))"
  by (simp add: filter_data_by_date_def Let_def)

lemma main_analysis_calls_eq:
  "main_analysis_calls data n sc ss a b =
     (let cats = selected_categories data n sc;
          stores = selected_stores data ss;
          R = normalize_orderDate (filter (passes_criteria a b cats stores) data);
          N = normalize_orderDate data;
          DF = filter (\<lambda>r. in_range (to_datetime_utc a) (to_datetime_utc b) (orderDate r)) N
      in if length R > 0
         then Inr [category_performance_analysis R cats stores,
                   weekly_sales_analysis R cats (get_top_categories data n),
                   daily_sales_analysis R cats stores,
                   store_performance_analysis N DF cats stores,
                   hourly_sales_analysis R cats,
                   profit_margin_analysis R cats,
                   top_products_analysis R cats]
         else Inr [])"
  by (simp add: main_analysis_calls_def Let_def filter_data_passes filter_data_by_date_Some
        normalize_orderDate_idem)

lemma sorted_value_counts: "sorted (map (\<lambda>p. - int (snd p)) (value_counts xs))"
  by (simp add: value_counts_def)

lemma set_value_counts: "set (value_counts xs) = (\<lambda>k. (k, count_list xs k)) ` set xs"
  by (simp add: value_counts_def)

lemma top_most_frequent:
  assumes "c \<in> set (map fst (take n (value_counts xs)))"
    and "c' \<in> set xs" and "c' \<notin> set (map fst (take n (value_counts xs)))"
  shows "count_list xs c' \<le> count_list xs c"
proof -
  let ?vc = "value_counts xs"
  let ?f = "\<lambda>p::'a \<times> nat. - int (snd p)"
  from assms(1) obtain p where p: "p \<in> set (take n ?vc)" "fst p = c" by auto
  then have "p \<in> set ?vc" by (meson in_set_takeD)
  with p have pc: "snd p = count_list xs c" by (auto simp: set_value_counts)
  from assms(2) have "(c', count_list xs c') \<in> set ?vc" by (simp add: set_value_counts)
  then have "(c', count_list xs c') \<in> set (take n ?vc) \<union> set (drop n ?vc)"
    by (metis append_take_drop_id set_append)
  moreover have "(c', count_list xs c') \<notin> set (take n ?vc)"
    using assms(3) by force
  ultimately have q: "(c', count_list xs c') \<in> set (drop n ?vc)" by simp
  have "sorted (map ?f (take n ?vc) @ map ?f (drop n ?vc))"
    using sorted_value_counts [of xs] by (simp flip: map_append)
  then have "\<forall>x\<in>set (map ?f (take n ?vc)). \<forall>y\<in>set (map ?f (drop n ?vc)). x \<le> y"
    by (simp add: sorted_append)
  then have "?f p \<le> ?f (c', count_list xs c')"
    using p(1) q by (simp only: set_map) blast
  with pc show ?thesis by simp
qed

lemma get_top_categories_most_frequent:
  assumes "c \<in> set (get_top_categories data n)"
    and "c' \<in> set (map categoryName data)" and "c' \<notin> set (get_top_categories data n)"
  shows "count_list (map categoryName data) c' \<le> count_list (map categoryName data) c"
  using assms unfolding get_top_categories_def by (rule top_most_frequent)

lemma get_top_categories_subset:
  "set (get_top_categories data n) \<subseteq> set (map categoryName data)"
proof -
  have "set (get_top_categories data n) \<subseteq> set (map fst (value_counts (map categoryName data)))"
    unfolding get_top_categories_def take_map [symmetric] by (rule set_take_subset)
  then show ?thesis by (simp only: set_map_fst_value_counts)
qed

lemma map_categoryName_many_categories:
  "map categoryName many_categories = map (\<lambda>i. replicate (Suc i) CHR ''c'') [0..<251]"
  by (simp add: many_categories_def comp_def)

lemma distinct_many_categories: "distinct (map categoryName many_categories)"
proof -
  have "inj (\<lambda>i. replicate (Suc i) CHR ''c'')"
    by (rule injI) (metis length_replicate nat.inject)
  then show ?thesis
    unfolding map_categoryName_many_categories by (simp add: distinct_map inj_on_def)
qed

lemma many_categories_count: "length (unique (map categoryName many_categories)) = 251"
  by (simp add: unique_distinct distinct_many_categories) (simp add: many_categories_def)

lemma count_list_distinct: "distinct xs \<Longrightarrow> x \<in> set xs \<Longrightarrow> count_list xs x = 1"
  by (induction xs) auto

lemma sorted_map_constant: "sorted (map (\<lambda>x. c) xs)"
  by (induction xs) auto

lemma value_counts_distinct:
  assumes "distinct xs"
  shows "value_counts xs = map (\<lambda>k. (k, 1)) xs"
proof -
  have eq: "map (\<lambda>k. (k, count_list xs k)) xs = map (\<lambda>k. (k, 1)) xs"
    using assms by (simp add: count_list_distinct)
  have "sort_key (\<lambda>p. - int (snd p)) (map (\<lambda>k. (k, 1::nat)) xs) = map (\<lambda>k. (k, 1)) xs"
    by (rule sort_key_id_if_sorted) (simp add: comp_def sorted_map_constant)
  then show ?thesis
    unfolding value_counts_def unique_distinct [OF assms] eq .
qed

lemma get_top_categories_many_categories:
  "get_top_categories many_categories 250 = take 250 (map categoryName many_categories)"
  by (simp add: get_top_categories_def value_counts_distinct distinct_many_categories
        take_map comp_def)

lemma last_category_outside_top:
  "categoryName (many_categories ! 250) \<notin> set (get_top_categories many_categories 250)"
proof -
  have c: "categoryName (many_categories ! 250) = replicate (Suc 250) CHR ''c''"
    by (simp add: many_categories_def del: replicate_Suc)
  have "set (get_top_categories many_categories 250)
          = (\<lambda>i. replicate (Suc i) CHR ''c'') ` {0..<250}"
    by (simp add: get_top_categories_many_categories map_categoryName_many_categories
          take_map)
  moreover have "replicate (Suc 250) CHR ''c''
                   \<notin> (\<lambda>i. replicate (Suc i) CHR ''c'') ` {0..<250}"
  proof
    assume "replicate (Suc 250) CHR ''c'' \<in> (\<lambda>i. replicate (Suc i) CHR ''c'') ` {0..<250}"
    then obtain i where i: "i < 250"
      and "replicate (Suc 250) CHR ''c'' = replicate (Suc i) CHR ''c''"
      by auto
    then have "length (replicate (Suc 250) CHR ''c'') = length (replicate (Suc i) CHR ''c'')"
      by (simp only:)
    with i show False by (simp only: length_replicate)
  qed
  ultimately show ?thesis by (simp only: c not_False_eq_True)
qed

lemma first_category_in_top:
  "categoryName (many_categories ! 0) \<in> set (get_top_categories many_categories 250)"
proof -
  have "categoryName (many_categories ! 0) = (\<lambda>i. replicate (Suc i) CHR ''c'') 0"
    by (simp add: many_categories_def)
  moreover have "set (get_top_categories many_categories 250)
          = (\<lambda>i. replicate (Suc i) CHR ''c'') ` {0..<250}"
    by (simp add: get_top_categories_many_categories map_categoryName_many_categories
          take_map)
  ultimately show ?thesis by (simp only: image_eqI [where x = 0] atLeastLessThan_iff) simp
qed

lemma many_categories_in_range:
  "filter (\<lambda>r. in_range (to_datetime_utc (Naive 0)) (to_datetime_utc (Naive 2)) (orderDate r))
     (normalize_orderDate many_categories) = normalize_orderDate many_categories"
  by (simp add: many_categories_def normalize_orderDate_def utc_row_def in_range_def
        filter_map comp_def)

lemma many_categories_result_nonempty:
  "0 < length (normalize_orderDate
        (filter (passes_criteria (Naive 0) (Naive 2)
                   (get_top_categories many_categories 250) [''S'']) many_categories))"
proof -
  have m: "many_categories ! 0 \<in> set many_categories"
    by (rule nth_mem) (simp add: many_categories_def)
  have "passes_criteria (Naive 0) (Naive 2) (get_top_categories many_categories 250) [''S'']
          (many_categories ! 0)"
    using first_category_in_top by (simp add: passes_criteria_def) (simp add: many_categories_def)
  with m have "many_categories ! 0
      \<in> set (filter (passes_criteria (Naive 0) (Naive 2)
                   (get_top_categories many_categories 250) [''S'']) many_categories)"
    by simp
  then have "0 < length (filter (passes_criteria (Naive 0) (Naive 2)
                   (get_top_categories many_categories 250) [''S'']) many_categories)"
    by (rule length_pos_if_in_set)
  then show ?thesis
    by (simp only: normalize_orderDate_def length_map)
qed

lemma selected_categories_empty:
  "selected_categories data n [] = get_top_categories data n"
  by (simp add: selected_categories_def)

lemma selected_stores_nonempty: "ss \<noteq> [] \<Longrightarrow> selected_stores data ss = ss"
  by (simp add: selected_stores_def)

lemma set_group_key_overall_analysis:
  "set (map group_key (overall_analysis R)) = set (map categoryName R)"
  by (simp only: overall_analysis_columns(4) map_group_key_groupby_agg set_sort set_remdups)

text \<open>
  C10 as stated fails in its last part: with 251 categories of one row each and no
  category picked, \<^verbatim>\<open>store_performance_analysis\<close> is handed the whole dataset, as
  \<^verbatim>\<open>data\<close> and as \<^verbatim>\<open>date_filtered_data\<close>, and it contains the row of the one
  category outside the top 250.
\<close>

theorem store_performance_gets_all_categories:
  "main_analysis_calls many_categories (default_n_categories many_categories)
       [] [''S''] (Naive 0) (Naive 2)
     = Inr [category_performance_analysis
              (normalize_orderDate
                 (filter (passes_criteria (Naive 0) (Naive 2)
                            (get_top_categories many_categories 250) [''S''])
                    many_categories))
              (get_top_categories many_categories 250) [''S''],
            weekly_sales_analysis
              (normalize_orderDate
                 (filter (passes_criteria (Naive 0) (Naive 2)
                            (get_top_categories many_categories 250) [''S''])
                    many_categories))
              (get_top_categories many_categories 250)
              (get_top_categories many_categories 250),
            daily_sales_analysis
              (normalize_orderDate
                 (filter (passes_criteria (Naive 0) (Naive 2)
                            (get_top_categories many_categories 250) [''S''])
                    many_categories))
              (get_top_categories many_categories 250) [''S''],
            store_performance_analysis
              (normalize_orderDate many_categories)
              (normalize_orderDate many_categories)
              (get_top_categories many_categories 250) [''S''],
            hourly_sales_analysis
              (normalize_orderDate
                 (filter (passes_criteria (Naive 0) (Naive 2)
                            (get_top_categories many_categories 250) [''S''])
                    many_categories))
              (get_top_categories many_categories 250),
            profit_margin_analysis
              (normalize_orderDate
                 (filter (passes_criteria (Naive 0) (Naive 2)
                            (get_top_categories many_categories 250) [''S''])
                    many_categories))
              (get_top_categories many_categories 250),
            top_products_analysis
              (normalize_orderDate
                 (filter (passes_criteria (Naive 0) (Naive 2)
                            (get_top_categories many_categories 250) [''S''])
                    many_categories))
              (get_top_categories many_categories 250)]
   \<and> utc_row (many_categories ! 250) \<in> set (normalize_orderDate many_categories)
   \<and> categoryName (utc_row (many_categories ! 250))
       \<notin> set (get_top_categories many_categories 250)"
proof -
  have n: "default_n_categories many_categories = 250"
    by (simp add: default_n_categories_def many_categories_count)
  have "many_categories ! 250 \<in> set many_categories"
    by (rule nth_mem) (simp add: many_categories_def)
  then have m: "utc_row (many_categories ! 250) \<in> set (normalize_orderDate many_categories)"
    by (simp add: normalize_orderDate_def)
  have c: "categoryName (utc_row (many_categories ! 250))
             \<notin> set (get_top_categories many_categories 250)"
    using last_category_outside_top by (simp only: utc_row_columns(2) not_False_eq_True)
  show ?thesis
    unfolding n
    using many_categories_result_nonempty m c
    by (simp add: main_analysis_calls_eq Let_def selected_categories_empty
          selected_stores_nonempty many_categories_in_range [unfolded to_datetime_utc.simps])
qed

text \<open>
  C10, amended: when the dataset has more than 250 distinct categories the number input
  starts at 250, and with no category picked in the sidebar the list handed to
  \<^verbatim>\<open>filter_data\<close> is \<^verbatim>\<open>get_top_categories(data, 250)\<close>: 250 distinct categories of
  the dataset, each with at least as many rows as any category left out.  Some row has
  a category outside the list.  The result of \<^verbatim>\<open>filter_data\<close> is exactly the rows
  that pass the dates, the store selection and membership of that list, so every row of
  a category outside it is missing from the result, from the overall table and from the
  six analyses that are handed \<^verbatim>\<open>filtered_data\<close>;
  \<^verbatim>\<open>store_performance_analysis\<close> is handed the whole dataset and its date-filtered
  rows instead.
\<close>

theorem default_selection_is_top_250:
  assumes "250 < length (unique (map categoryName data))"
  shows "default_n_categories data = 250
    \<and> selected_categories data (default_n_categories data) [] = get_top_categories data 250
    \<and> main_filtered_data data (default_n_categories data) [] sel_stores a b
        = filter_data data (get_top_categories data 250) (selected_stores data sel_stores)
            (Some a) (Some b)
    \<and> length (get_top_categories data 250) = 250
    \<and> distinct (get_top_categories data 250)
    \<and> set (get_top_categories data 250) \<subseteq> set (map categoryName data)
    \<and> (\<forall>c\<in>set (get_top_categories data 250).
          \<forall>c'\<in>set (map categoryName data) - set (get_top_categories data 250).
            count_list (map categoryName data) c' \<le> count_list (map categoryName data) c)
    \<and> (\<exists>r\<in>set data. categoryName r \<notin> set (get_top_categories data 250))
    \<and> (\<exists>R. snd (main_filtered_data data (default_n_categories data) [] sel_stores a b) = Inr R
          \<and> R = normalize_orderDate
                  (filter (passes_criteria a b (get_top_categories data 250)
                             (selected_stores data sel_stores)) data)
          \<and> (\<forall>r\<in>set data. categoryName r \<notin> set (get_top_categories data 250)
                \<longrightarrow> utc_row r \<notin> set R)
          \<and> (\<forall>r\<in>set R. categoryName r \<in> set (get_top_categories data 250))
          \<and> set (map group_key (overall_analysis R)) \<subseteq> set (get_top_categories data 250)
          \<and> main_analysis_calls data (default_n_categories data) [] sel_stores a b
              = Inr (if length R > 0
                     then [category_performance_analysis R (get_top_categories data 250)
                             (selected_stores data sel_stores),
                           weekly_sales_analysis R (get_top_categories data 250)
                             (get_top_categories data 250),
                           daily_sales_analysis R (get_top_categories data 250)
                             (selected_stores data sel_stores),
                           store_performance_analysis (normalize_orderDate data)
                             (filter (\<lambda>r. in_range (to_datetime_utc a) (to_datetime_utc b)
                                             (orderDate r))
                                (normalize_orderDate data))
                             (get_top_categories data 250) (selected_stores data sel_stores),
                           hourly_sales_analysis R (get_top_categories data 250),
                           profit_margin_analysis R (get_top_categories data 250),
                           top_products_analysis R (get_top_categories data 250)]
                     else []))"
proof -
  let ?T = "get_top_categories data 250"
  let ?S = "selected_stores data sel_stores"
  let ?R = "normalize_orderDate (filter (passes_criteria a b ?T ?S) data)"
  from assms have n: "default_n_categories data = 250"
    by (simp add: default_n_categories_def)
  have sel: "selected_categories data 250 [] = ?T"
    by (rule selected_categories_empty)
  have call: "main_filtered_data data 250 [] sel_stores a b
                = filter_data data ?T ?S (Some a) (Some b)"
    by (simp only: main_filtered_data_def sel)
  have len: "length ?T = 250"
    using assms by (simp add: get_top_categories_length)
  have dist: "distinct ?T"
    by (rule get_top_categories_distinct)
  have sub: "set ?T \<subseteq> set (map categoryName data)"
    by (rule get_top_categories_subset)
  have freq: "\<forall>c\<in>set ?T. \<forall>c'\<in>set (map categoryName data) - set ?T.
                count_list (map categoryName data) c' \<le> count_list (map categoryName data) c"
    by (blast intro: get_top_categories_most_frequent)
  have out: "\<exists>r\<in>set data. categoryName r \<notin> set ?T"
    using assms by (rule some_category_outside_top)
  have R: "snd (main_filtered_data data 250 [] sel_stores a b) = Inr ?R"
    by (simp only: call filter_data_passes snd_conv)
  have in_top: "\<forall>r\<in>set ?R. categoryName r \<in> set ?T"
    by (auto simp: normalize_orderDate_def passes_criteria_def)
  have excl: "\<forall>r\<in>set data. categoryName r \<notin> set ?T \<longrightarrow> utc_row r \<notin> set ?R"
    using in_top by (metis utc_row_columns(2))
  have "set (map categoryName ?R) \<subseteq> set ?T"
    using in_top by auto
  then have groups: "set (map group_key (overall_analysis ?R)) \<subseteq> set ?T"
    by (simp only: set_group_key_overall_analysis)
  have calls: "main_analysis_calls data 250 [] sel_stores a b
     = Inr (if length ?R > 0
            then [category_performance_analysis ?R ?T ?S,
                  weekly_sales_analysis ?R ?T ?T,
                  daily_sales_analysis ?R ?T ?S,
                  store_performance_analysis (normalize_orderDate data)
                    (filter (\<lambda>r. in_range (to_datetime_utc a) (to_datetime_utc b) (orderDate r))
                       (normalize_orderDate data)) ?T ?S,
                  hourly_sales_analysis ?R ?T,
                  profit_margin_analysis ?R ?T,
                  top_products_analysis ?R ?T]
            else [])"
    by (simp add: main_analysis_calls_eq Let_def sel)
  from R excl in_top groups calls
  have ex: "\<exists>R. snd (main_filtered_data data 250 [] sel_stores a b) = Inr R
          \<and> R = ?R
          \<and> (\<forall>r\<in>set data. categoryName r \<notin> set ?T \<longrightarrow> utc_row r \<notin> set R)
          \<and> (\<forall>r\<in>set R. categoryName r \<in> set ?T)
          \<and> set (map group_key (overall_analysis R)) \<subseteq> set ?T
          \<and> main_analysis_calls data 250 [] sel_stores a b
              = Inr (if length R > 0
                     then [category_performance_analysis R ?T ?S,
                           weekly_sales_analysis R ?T ?T,
                           daily_sales_analysis R ?T ?S,
                           store_performance_analysis (normalize_orderDate data)
                             (filter (\<lambda>r. in_range (to_datetime_utc a) (to_datetime_utc b)
                                             (orderDate r))
                                (normalize_orderDate data)) ?T ?S,
                           hourly_sales_analysis R ?T,
                           profit_margin_analysis R ?T,
                           top_products_analysis R ?T]
                     else [])"
    by (intro exI [of _ ?R] conjI refl)
  show ?thesis
    unfolding n by (intro conjI refl sel call len dist sub freq out ex)
qed

theorem default_selection_is_top_250_witness:
  "250 < length (unique (map categoryName many_categories))
   \<and> default_n_categories many_categories = 250
   \<and> length (get_top_categories many_categories 250) = 250
   \<and> (\<exists>r\<in>set many_categories.
         categoryName r \<notin> set (get_top_categories many_categories 250))
   \<and> snd (main_filtered_data many_categories (default_n_categories many_categories)
            [] [''S''] (Naive 0) (Naive 2))
       = Inr (normalize_orderDate
                (filter (passes_criteria (Naive 0) (Naive 2)
                           (get_top_categories many_categories 250)
                           (selected_stores many_categories [''S''])) many_categories))"
proof -
  have h: "250 < length (unique (map categoryName many_categories))"
    by (simp add: many_categories_count)
  from default_selection_is_top_250 [OF h, of "[''S'']" "Naive 0" "Naive 2"] h
  show ?thesis by blast
qed

end
